theory Spec2Isabelle
  imports Main
begin

section \<open>Python values used by the program\<close>

text \<open>
  A Python \<open>str\<close> is a sequence of Unicode code points and \<open>len\<close> counts code points,
  so a string is a list of code-point numbers. \<open>lit\<close> embeds the ASCII literals of the
  source.
\<close>

type_synonym pystr = "nat list"

definition lit :: "string \<Rightarrow> pystr" where
  "lit s = map of_char s"

text \<open>
  An exception object: its class name and the text \<open>str(e)\<close> gives. Every exception
  modelled here is an instance of \<open>Exception\<close>, the class the handler of \<open>chat\<close> names.
\<close>

datatype py_exception = PyExc (exc_class: string) (exc_str: pystr)

text \<open>Truthiness of a value that is \<open>None\<close> or a \<open>str\<close>: \<open>None\<close> and \<open>""\<close> are falsy.\<close>

definition truthy :: "pystr option \<Rightarrow> bool" where
  "truthy v = (case v of None \<Rightarrow> False | Some s \<Rightarrow> s \<noteq> [])"

section \<open>The file system seen by the program\<close>

text \<open>
  A path names nothing, a regular file (its text and whether the process may write it)
  or a directory (the names \<open>os.listdir\<close> returns). \<open>creatable\<close> tells whether
  \<open>open(path, "w")\<close> may create a file at a path that names nothing, \<open>readable\<close>
  whether the process may open the file at a path for reading, and \<open>has_space\<close> whether
  the device takes a given text for the file at a path (it does not when the disk is
  full).
\<close>

datatype node = File (writable: bool) (content: pystr) | Directory (entries: "pystr list")

record filesystem =
  nodes :: "pystr \<rightharpoonup> node"
  creatable :: "pystr \<Rightarrow> bool"
  readable :: "pystr \<Rightarrow> bool"
  has_space :: "pystr \<Rightarrow> pystr \<Rightarrow> bool"

definition os_path_exists :: "filesystem \<Rightarrow> pystr \<Rightarrow> bool" where
  "os_path_exists fs path = (nodes fs path \<noteq> None)"

definition quoted :: "pystr \<Rightarrow> pystr" where
  "quoted s = [39] @ s @ [39]"

text \<open>\<open>open(path, "w")\<close>: creates or truncates the file, or raises an \<open>OSError\<close>.\<close>

definition open_w :: "filesystem \<Rightarrow> pystr \<Rightarrow> py_exception + filesystem" where
  "open_w fs path =
     (case nodes fs path of
        None \<Rightarrow>
          if creatable fs path
          then Inr (fs\<lparr>nodes := (nodes fs)(path \<mapsto> File True [])\<rparr>)
          else Inl (PyExc ''FileNotFoundError''
                     (lit ''[Errno 2] No such file or directory: '' @ quoted path))
      | Some (File w c) \<Rightarrow>
          if w then Inr (fs\<lparr>nodes := (nodes fs)(path \<mapsto> File w [])\<rparr>)
          else Inl (PyExc ''PermissionError''
                     (lit ''[Errno 13] Permission denied: '' @ quoted path))
      | Some (Directory ns) \<Rightarrow>
          Inl (PyExc ''IsADirectoryError''
                (lit ''[Errno 21] Is a directory: '' @ quoted path)))"

text \<open>
  Writing \<open>text\<close> to the file opened at \<open>path\<close> and leaving the \<open>with\<close> block: the
  writes are buffered, and the flush at the close either puts the text into the file or
  raises \<open>OSError\<close> and leaves the file as it was opened, without the text.
\<close>

definition file_write :: "filesystem \<Rightarrow> pystr \<Rightarrow> pystr \<Rightarrow> py_exception + filesystem" where
  "file_write fs path text =
     (case nodes fs path of
        Some (File w c) \<Rightarrow>
          if has_space fs path text
          then Inr (fs\<lparr>nodes := (nodes fs)(path \<mapsto> File w (c @ text))\<rparr>)
          else Inl (PyExc ''OSError'' (lit ''[Errno 28] No space left on device''))
      | _ \<Rightarrow> Inr fs)"

text \<open>\<open>open(path, "r")\<close> followed by reading the whole file.\<close>

definition open_r :: "filesystem \<Rightarrow> pystr \<Rightarrow> py_exception + pystr" where
  "open_r fs path =
     (case nodes fs path of
        None \<Rightarrow> Inl (PyExc ''FileNotFoundError''
                      (lit ''[Errno 2] No such file or directory: '' @ quoted path))
      | Some (File w c) \<Rightarrow>
          if readable fs path then Inr c
          else Inl (PyExc ''PermissionError''
                     (lit ''[Errno 13] Permission denied: '' @ quoted path))
      | Some (Directory ns) \<Rightarrow>
          Inl (PyExc ''IsADirectoryError''
                (lit ''[Errno 21] Is a directory: '' @ quoted path)))"

section \<open>utils.py\<close>

text \<open>
  The \<open>json\<close> module is a library, taken as two parameters.
  \<open>json_dump data\<close> is the text \<open>json.dump(data, f, indent=4)\<close> writes to \<open>f\<close> and the
  exception it raises, if any (the encoder writes chunk by chunk, so text may have been
  written before it raises). \<open>json_load text\<close> is what \<open>json.load\<close> makes of a file
  holding \<open>text\<close>.

  \<open>save_json\<close> has no handler: the result carries the exception that leaves the function
  (\<open>None\<close> when it returns) beside the file system it leaves behind. When the encoder
  raises, the \<open>with\<close> block still closes the file, and an exception of that close is the
  one that leaves the function.
\<close>

definition save_json ::
  "('a \<Rightarrow> pystr \<times> py_exception option) \<Rightarrow> filesystem \<Rightarrow> pystr \<Rightarrow> 'a
     \<Rightarrow> filesystem \<times> py_exception option" where
  "save_json json_dump fs path data =
     (case open_w fs path of
        Inl e \<Rightarrow> (fs, Some e)
      | Inr fs1 \<Rightarrow>
          (case file_write fs1 path (fst (json_dump data)) of
             Inl e \<Rightarrow> (fs1, Some e)
           | Inr fs2 \<Rightarrow> (fs2, snd (json_dump data))))"

text \<open>\<open>load_json\<close>: the bare \<open>except\<close> turns every exception of the \<open>try\<close> block into the default
  (\<open>dflt\<close>, the source's \<open>default\<close>, a name HOL already uses).\<close>

definition load_json ::
  "(pystr \<Rightarrow> py_exception + 'a) \<Rightarrow> filesystem \<Rightarrow> pystr \<Rightarrow> 'a \<Rightarrow> 'a" where
  "load_json json_load fs path dflt =
     (if os_path_exists fs path then
        (case open_r fs path of
           Inl e \<Rightarrow> dflt
         | Inr text \<Rightarrow>
             (case json_load text of
                Inl e \<Rightarrow> dflt
              | Inr v \<Rightarrow> v))
      else dflt)"

text \<open>
  A small codec for examples: a string without quotes or escapes is written between
  double quotes, and anything else is not JSON for the reader.
\<close>

definition demo_dump :: "pystr \<Rightarrow> pystr \<times> py_exception option" where
  "demo_dump s = ([34] @ s @ [34], None)"

definition demo_load :: "pystr \<Rightarrow> py_exception + pystr" where
  "demo_load t =
     (if 2 \<le> length t \<and> hd t = 34 \<and> last t = 34 then Inr (butlast (tl t))
      else Inl (PyExc ''JSONDecodeError'' (lit ''Expecting value: line 1 column 1 (char 0)'')))"

text \<open>An encoder that raises on its input after writing an opening brace.\<close>

definition failing_dump :: "pystr \<Rightarrow> pystr \<times> py_exception option" where
  "failing_dump s =
     (lit ''{'', Some (PyExc ''TypeError'' (lit ''Object of type set is not JSON serializable'')))"

definition demo_fs :: filesystem where
  "demo_fs =
     \<lparr>nodes = [lit ''ok.json'' \<mapsto> File True ([34] @ lit ''Student'' @ [34]),
               lit ''bad.json'' \<mapsto> File True (lit ''{oops''),
               lit ''ro.json'' \<mapsto> File False ([34] @ lit ''old'' @ [34]),
               lit ''wo.json'' \<mapsto> File True ([34] @ lit ''old'' @ [34]),
               lit ''./knowledge_base'' \<mapsto> Directory [lit ''cv.pdf'', lit ''notes.md'']],
      creatable = (\<lambda>p. p = lit ''new.json''),
      readable = (\<lambda>p. p \<noteq> lit ''wo.json''),
      has_space = (\<lambda>p text. True)\<rparr>"

text \<open>The same files on a full disk.\<close>

definition full_fs :: filesystem where
  "full_fs = demo_fs\<lparr>has_space := (\<lambda>p text. text = [])\<rparr>"

section \<open>app.py: ingestion\<close>

text \<open>
  A LangChain \<open>Document\<close>, and the three LangChain message classes the program builds.
  A stored chat message is a \<open>dict\<close> with string keys and values.
\<close>

record document =
  page_content :: pystr
  metadata :: "pystr \<rightharpoonup> pystr"

datatype lc_message = SystemMessage pystr | HumanMessage pystr | AIMessage pystr

type_synonym msg = "pystr \<rightharpoonup> pystr"

text \<open>
  The libraries the program calls, as parameters: the two document loaders (construction
  and \<open>load()\<close> together), the text splitter configured with chunk size 1000 and overlap
  100, the Chroma vector store (opening a persisted store, building one from chunks,
  \<open>persist()\<close>, \<open>similarity_search\<close>, and the number of entries of its collection) and
  the Groq chat client (construction with the
  fixed model name and temperature, and \<open>invoke\<close>, of which the program keeps
  \<open>response.content\<close>). What the vector store keeps on disk is the library's own.
\<close>

record ('c, 'vs) libs =
  PyPDFLoader_load :: "pystr \<Rightarrow> py_exception + document list"
  TextLoader_load :: "pystr \<Rightarrow> py_exception + document list"
  split_documents :: "document list \<Rightarrow> document list"
  Chroma_open :: "pystr \<Rightarrow> py_exception + 'vs"
  Chroma_from_documents :: "document list \<Rightarrow> pystr \<Rightarrow> py_exception + 'vs"
  Chroma_persist :: "'vs \<Rightarrow> py_exception option"
  index_size :: "'vs \<Rightarrow> nat"
  similarity_search :: "'vs \<Rightarrow> pystr \<Rightarrow> nat \<Rightarrow> py_exception + document list"
  ChatGroq :: "pystr option \<Rightarrow> py_exception + 'c"
  invoke :: "'c \<Rightarrow> lc_message list \<Rightarrow> py_exception + pystr"

record ('c, 'vs) rag =
  persist_directory :: pystr
  knowledge_base_path :: pystr
  vector_store :: "'vs option"
  llm :: "'c option"

text \<open>\<open>CareerChatbotRAG.__init__\<close>.\<close>

definition CareerChatbotRAG_init :: "pystr \<Rightarrow> pystr \<Rightarrow> ('c, 'vs) rag" where
  "CareerChatbotRAG_init pd kb =
     \<lparr>persist_directory = pd, knowledge_base_path = kb, vector_store = None, llm = None\<rparr>"

definition endswith :: "pystr \<Rightarrow> pystr \<Rightarrow> bool" where
  "endswith s suf = (length suf \<le> length s \<and> drop (length s - length suf) s = suf)"

text \<open>\<open>os.path.join\<close> of two components (POSIX).\<close>

definition os_path_join :: "pystr \<Rightarrow> pystr \<Rightarrow> pystr" where
  "os_path_join a b =
     (if b \<noteq> [] \<and> hd b = 47 then b
      else if a = [] \<or> last a = 47 then a @ b
      else a @ [47] @ b)"

definition os_listdir :: "filesystem \<Rightarrow> pystr \<Rightarrow> py_exception + pystr list" where
  "os_listdir fs path =
     (case nodes fs path of
        None \<Rightarrow> Inl (PyExc ''FileNotFoundError''
                      (lit ''[Errno 2] No such file or directory: '' @ quoted path))
      | Some (File w c) \<Rightarrow>
          Inl (PyExc ''NotADirectoryError''
                (lit ''[Errno 20] Not a directory: '' @ quoted path))
      | Some (Directory ns) \<Rightarrow> Inr ns)"

text \<open>
  The loop of \<open>_create_new_db\<close> over the directory listing: a loader that raises leaves
  \<open>documents\<close> as it was and the loop goes on (\<open>except: continue\<close>).
\<close>

fun extract_documents ::
  "('c, 'vs) libs \<Rightarrow> pystr \<Rightarrow> pystr list \<Rightarrow> document list \<Rightarrow> document list" where
  "extract_documents L kb [] documents = documents"
| "extract_documents L kb (file # files) documents =
     (if endswith file (lit ''.pdf'') then
        (case PyPDFLoader_load L (os_path_join kb file) of
           Inl e \<Rightarrow> extract_documents L kb files documents
         | Inr ds \<Rightarrow> extract_documents L kb files (documents @ ds))
      else if endswith file (lit ''.txt'') then
        (case TextLoader_load L (os_path_join kb file) of
           Inl e \<Rightarrow> extract_documents L kb files documents
         | Inr ds \<Rightarrow> extract_documents L kb files (documents @ ds))
      else extract_documents L kb files documents)"

text \<open>A directory entry that adds no document: its loader raises or returns nothing, or its
  extension is neither \<open>.pdf\<close> nor \<open>.txt\<close>.\<close>

definition skipped :: "('c, 'vs) libs \<Rightarrow> pystr \<Rightarrow> pystr \<Rightarrow> bool" where
  "skipped L kb file =
     (if endswith file (lit ''.pdf'') then
        (case PyPDFLoader_load L (os_path_join kb file) of Inl e \<Rightarrow> True | Inr ds \<Rightarrow> ds = [])
      else if endswith file (lit ''.txt'') then
        (case TextLoader_load L (os_path_join kb file) of Inl e \<Rightarrow> True | Inr ds \<Rightarrow> ds = [])
      else True)"

text \<open>
  Two facts about the libraries, in the form the index needs them. The splitter strips
  white space from its chunks and drops empty ones, so a document whose text has a
  visible ASCII character gives at least one chunk; and the collection Chroma builds from
  a chunk list has one entry for each chunk.
\<close>

definition has_visible_text :: "document \<Rightarrow> bool" where
  "has_visible_text d = list_ex (\<lambda>c. 33 \<le> c \<and> c \<le> 126) (page_content d)"

definition splitter_keeps_text :: "('c, 'vs) libs \<Rightarrow> bool" where
  "splitter_keeps_text L =
     (\<forall>ds. list_ex has_visible_text ds \<longrightarrow> split_documents L ds \<noteq> [])"

definition chroma_stores_chunks :: "('c, 'vs) libs \<Rightarrow> bool" where
  "chroma_stores_chunks L =
     (\<forall>chunks pd db. Chroma_from_documents L chunks pd = Inr db
        \<longrightarrow> index_size L db = length chunks)"

definition fallback_documents :: "document list" where
  "fallback_documents =
     [\<lparr>page_content =
         lit ''Data Science includes roles like Data Analyst, ML Engineer, and Research Scientist.'',
       metadata = [lit ''source'' \<mapsto> lit ''Internal'']\<rparr>,
      \<lparr>page_content =
         lit ''Software Engineering requires mastery of algorithms, systems design, and version control.'',
       metadata = [lit ''source'' \<mapsto> lit ''Internal'']\<rparr>]"

text \<open>
  Lines 51 to 69 of \<open>_create_new_db\<close>: the documents handed to the splitter.
  \<open>os.listdir\<close> is outside the \<open>try\<close>, so its exception leaves the function.
\<close>

definition collect_documents ::
  "('c, 'vs) libs \<Rightarrow> filesystem \<Rightarrow> pystr \<Rightarrow> py_exception + document list" where
  "collect_documents L fs kb =
     (case (if os_path_exists fs kb
            then (case os_listdir fs kb of
                    Inl e \<Rightarrow> Inl e
                  | Inr files \<Rightarrow> Inr (extract_documents L kb files []))
            else Inr [])
      of
        Inl e \<Rightarrow> Inl e
      | Inr documents \<Rightarrow> Inr (if documents = [] then fallback_documents else documents))"

definition create_new_db ::
  "('c, 'vs) libs \<Rightarrow> filesystem \<Rightarrow> ('c, 'vs) rag \<Rightarrow> py_exception + 'vs" where
  "create_new_db L fs self =
     (case collect_documents L fs (knowledge_base_path self) of
        Inl e \<Rightarrow> Inl e
      | Inr documents \<Rightarrow>
          (case Chroma_from_documents L (split_documents L documents) (persist_directory self) of
             Inl e \<Rightarrow> Inl e
           | Inr db \<Rightarrow>
               (case Chroma_persist L db of
                  Some e \<Rightarrow> Inr db
                | None \<Rightarrow> Inr db)))"

text \<open>\<open>load_engine\<close>: the object after the call, and the exception that leaves it, if any.\<close>

definition load_engine ::
  "('c, 'vs) libs \<Rightarrow> filesystem \<Rightarrow> ('c, 'vs) rag \<Rightarrow> ('c, 'vs) rag \<times> py_exception option" where
  "load_engine L fs self =
     (case (if os_path_exists fs (persist_directory self)
            then (case Chroma_open L (persist_directory self) of
                    Inl e \<Rightarrow> create_new_db L fs self
                  | Inr db \<Rightarrow> Inr db)
            else create_new_db L fs self)
      of
        Inl e \<Rightarrow> (self, Some e)
      | Inr db \<Rightarrow> (self\<lparr>vector_store := Some db\<rparr>, None))"

section \<open>app.py: the chat operation\<close>

definition dict_get :: "('k \<rightharpoonup> 'v) \<Rightarrow> 'k \<Rightarrow> 'v \<Rightarrow> 'v" where
  "dict_get d k dflt = (case d k of None \<Rightarrow> dflt | Some v \<Rightarrow> v)"

fun join :: "pystr \<Rightarrow> pystr list \<Rightarrow> pystr" where
  "join sep [] = []"
| "join sep [x] = x"
| "join sep (x # y # ys) = x @ sep @ join sep (y # ys)"

definition profile_context :: "(pystr \<rightharpoonup> pystr) \<Rightarrow> pystr" where
  "profile_context user_profile =
     lit ''User Profile: Skills('' @ dict_get user_profile (lit ''skills'') (lit ''Unknown'')
     @ lit ''), Education('' @ dict_get user_profile (lit ''education'') (lit ''Unknown'')
     @ lit ''), Interest('' @ dict_get user_profile (lit ''interest'') (lit ''General'')
     @ lit '').''"

definition persona_head :: pystr where
  "persona_head = lit ''You are a Technical AI Career Guidance Assistant. '' @ [10]
     @ lit ''                ''"

definition persona_context_intro :: pystr where
  "persona_context_intro = [10]
     @ lit ''                Use the following context to provide professional, mentor-grade advice: ''"

definition persona_rules :: pystr where
  "persona_rules = [10] @ lit ''                '' @ [10]
     @ lit ''                Rules:'' @ [10]
     @ lit ''                1. Provide structured, clear, and encouraging guidance.'' @ [10]
     @ lit ''                2. Use professional typography: bullet points for steps and skills.'' @ [10]
     @ lit ''                3. Tailor recommendations specifically to the user'' @ [39]
     @ lit ''s provided profile.'' @ [10]
     @ lit ''                4. Maintain a calm, neutral, and helpful tone.''"

definition system_content :: "pystr \<Rightarrow> pystr \<Rightarrow> pystr" where
  "system_content pc ctx = persona_head @ pc @ persona_context_intro @ ctx @ persona_rules"

text \<open>
  The loop over \<open>history\<close>: \<open>msg.get("role")\<close> is \<open>None\<close> for a missing key, while
  \<open>msg["content"]\<close> raises \<open>KeyError\<close>.
\<close>

fun history_messages :: "msg list \<Rightarrow> lc_message list \<Rightarrow> py_exception + lc_message list" where
  "history_messages [] acc = Inr acc"
| "history_messages (m # rest) acc =
     (if m (lit ''role'') = Some (lit ''user'') then
        (case m (lit ''content'') of
           None \<Rightarrow> Inl (PyExc ''KeyError'' (quoted (lit ''content'')))
         | Some c \<Rightarrow> history_messages rest (acc @ [HumanMessage c]))
      else if m (lit ''role'') = Some (lit ''assistant'') then
        (case m (lit ''content'') of
           None \<Rightarrow> Inl (PyExc ''KeyError'' (quoted (lit ''content'')))
         | Some c \<Rightarrow> history_messages rest (acc @ [AIMessage c]))
      else history_messages rest acc)"

text \<open>Lines 91 to 114 of \<open>chat\<close>: the message list handed to the model.\<close>

definition assemble ::
  "(pystr \<rightharpoonup> pystr) \<Rightarrow> document list \<Rightarrow> msg list \<Rightarrow> pystr \<Rightarrow> py_exception + lc_message list" where
  "assemble user_profile docs history user_query =
     (case history_messages history
             [SystemMessage (system_content (profile_context user_profile)
                               (join [10, 10] (map page_content docs)))]
      of
        Inl e \<Rightarrow> Inl e
      | Inr msgs \<Rightarrow> Inr (msgs @ [HumanMessage user_query]))"

text \<open>
  Lines 87 and 88 of \<open>chat\<close>: the client is built only when \<open>self.llm\<close> is \<open>None\<close>.
\<close>

definition get_llm :: "('c, 'vs) libs \<Rightarrow> ('c, 'vs) rag \<Rightarrow> pystr option \<Rightarrow> py_exception + 'c" where
  "get_llm L self api_key = (case llm self of None \<Rightarrow> ChatGroq L api_key | Some c \<Rightarrow> Inr c)"

text \<open>
  Line 90: calling \<open>similarity_search\<close> on a \<open>vector_store\<close> that is still \<open>None\<close> raises
  \<open>AttributeError\<close>.
\<close>

definition retrieve ::
  "('c, 'vs) libs \<Rightarrow> ('c, 'vs) rag \<Rightarrow> pystr \<Rightarrow> py_exception + document list" where
  "retrieve L self user_query =
     (case vector_store self of
        None \<Rightarrow> Inl (PyExc ''AttributeError''
                      (quoted (lit ''NoneType'') @ lit '' object has no attribute ''
                         @ quoted (lit ''similarity_search'')))
      | Some vs \<Rightarrow> similarity_search L vs user_query 3)"

text \<open>
  The \<open>try\<close> block of \<open>chat\<close>: the object after it and what it raised or returned. The
  client stays assigned when a later step raises.
\<close>

definition chat_try ::
  "('c, 'vs) libs \<Rightarrow> ('c, 'vs) rag \<Rightarrow> pystr \<Rightarrow> msg list \<Rightarrow> pystr option \<Rightarrow> (pystr \<rightharpoonup> pystr)
     \<Rightarrow> ('c, 'vs) rag \<times> (py_exception + pystr \<times> document list)" where
  "chat_try L self user_query history api_key user_profile =
     (case get_llm L self api_key of
        Inl e \<Rightarrow> (self, Inl e)
      | Inr c \<Rightarrow>
          (case retrieve L self user_query of
             Inl e \<Rightarrow> (self\<lparr>llm := Some c\<rparr>, Inl e)
           | Inr docs \<Rightarrow>
               (case assemble user_profile docs history user_query of
                  Inl e \<Rightarrow> (self\<lparr>llm := Some c\<rparr>, Inl e)
                | Inr msgs \<Rightarrow>
                    (case invoke L c msgs of
                       Inl e \<Rightarrow> (self\<lparr>llm := Some c\<rparr>, Inl e)
                     | Inr response \<Rightarrow> (self\<lparr>llm := Some c\<rparr>, Inr (response, docs))))))"

text \<open>The text of the \<open>except Exception\<close> branch; 10060 is the cross-mark code point.\<close>

definition system_error :: "py_exception \<Rightarrow> pystr" where
  "system_error e = [10060] @ lit '' System Error: '' @ exc_str e"

definition chat ::
  "('c, 'vs) libs \<Rightarrow> ('c, 'vs) rag \<Rightarrow> pystr \<Rightarrow> msg list \<Rightarrow> pystr option \<Rightarrow> (pystr \<rightharpoonup> pystr)
     \<Rightarrow> ('c, 'vs) rag \<times> pystr \<times> document list" where
  "chat L self user_query history api_key user_profile =
     (case chat_try L self user_query history api_key user_profile of
        (self', Inl e) \<Rightarrow> (self', system_error e, [])
      | (self', Inr r) \<Rightarrow> (self', r))"

text \<open>The assembly in the words of the specification, for comparison.\<close>

definition spec_prior_message :: "msg \<Rightarrow> lc_message list" where
  "spec_prior_message m =
     (if m (lit ''role'') = Some (lit ''user'') then [HumanMessage (the (m (lit ''content'')))]
      else if m (lit ''role'') = Some (lit ''assistant'')
      then [AIMessage (the (m (lit ''content'')))]
      else [])"

text \<open>
  A stored message that the loop turns into a model message must have a \<open>content\<close>;
  every message the program stores has one.
\<close>

definition has_content :: "msg \<Rightarrow> bool" where
  "has_content m =
     (if m (lit ''role'') = Some (lit ''user'') \<or> m (lit ''role'') = Some (lit ''assistant'')
      then m (lit ''content'') \<noteq> None else True)"

text \<open>Successive \<open>chat\<close> calls on one orchestrator: each call is (query, history, key, profile).\<close>

fun chat_calls ::
  "('c, 'vs) libs \<Rightarrow> ('c, 'vs) rag \<Rightarrow> (pystr \<times> msg list \<times> pystr option \<times> (pystr \<rightharpoonup> pystr)) list
     \<Rightarrow> ('c, 'vs) rag" where
  "chat_calls L self [] = self"
| "chat_calls L self ((q, h, k, p) # calls) = chat_calls L (fst (chat L self q h k p)) calls"

section \<open>app.py: sessions and profile\<close>

record session =
  name :: pystr
  messages :: "msg list"
  time :: pystr

record history_store =
  sessions :: "pystr \<rightharpoonup> session"
  active_id :: "pystr option"

text \<open>
  What the script works on: \<open>st.session_state\<close> (history, profile, the orchestrator) and
  the disk. A handler returns the state it leaves and the exception that ends the script
  run, if any; \<open>st.session_state\<close> keeps its mutations when the run ends that way.
\<close>

record ('c, 'vs) app_state =
  history :: history_store
  profile :: "pystr \<rightharpoonup> pystr"
  rag_engine :: "('c, 'vs) rag"
  disk :: filesystem

definition HISTORY_PATH :: pystr where
  "HISTORY_PATH = lit ''chat_store.json''"

definition PROFILE_PATH :: pystr where
  "PROFILE_PATH = lit ''.profile_store.json''"

definition new_session :: "pystr \<Rightarrow> session" where
  "new_session timestamp = \<lparr>name = lit ''Career Planning'', messages = [], time = timestamp\<rparr>"

definition default_profile :: "pystr \<rightharpoonup> pystr" where
  "default_profile =
     [lit ''skills'' \<mapsto> [], lit ''education'' \<mapsto> lit ''Student'', lit ''interest'' \<mapsto> []]"


text \<open>
  \<open>str(u)\<close> of a UUID \<open>u\<close>: \<open>hex\<close> is \<open>'%032x' % u.int\<close>, the 32 hexadecimal digits
  of the UUID, and the string is
  \<open>hex[:8]-hex[8:12]-hex[12:16]-hex[16:20]-hex[20:]\<close>.
\<close>

definition uuid_str :: "pystr \<Rightarrow> pystr" where
  "uuid_str hex =
     take 8 hex @ [45] @ take 4 (drop 8 hex) @ [45] @ take 4 (drop 12 hex) @ [45]
       @ take 4 (drop 16 hex) @ [45] @ drop 20 hex"


text \<open>The Reset button of the profile form (lines 289 to 292).\<close>

definition reset_profile ::
  "((pystr \<rightharpoonup> pystr) \<Rightarrow> pystr \<times> py_exception option) \<Rightarrow> ('c, 'vs) app_state
     \<Rightarrow> ('c, 'vs) app_state \<times> py_exception option" where
  "reset_profile json_dump st =
     (let saved = save_json json_dump (disk st) PROFILE_PATH default_profile
      in (st\<lparr>profile := default_profile, disk := fst saved\<rparr>, snd saved))"

text \<open>Lines 312 to 321: make sure \<open>active_id\<close> names a session.\<close>

definition ensure_active_session ::
  "pystr \<Rightarrow> pystr \<Rightarrow> ('c, 'vs) app_state \<Rightarrow> ('c, 'vs) app_state" where
  "ensure_active_session uuid_hex timestamp st =
     (if \<not> truthy (active_id (history st))
         \<or> (case active_id (history st) of None \<Rightarrow> True
             | Some a \<Rightarrow> sessions (history st) a = None)
      then st\<lparr>history :=
             (history st)\<lparr>sessions :=
                             (sessions (history st))(uuid_str uuid_hex \<mapsto> new_session timestamp),
                           active_id := Some (uuid_str uuid_hex)\<rparr>\<rparr>
      else st)"

text \<open>Line 343.\<close>

definition session_name :: "pystr \<Rightarrow> pystr" where
  "session_name prompt = (if length prompt > 30 then take 30 prompt @ lit ''...'' else prompt)"

definition chat_message :: "pystr \<Rightarrow> pystr \<Rightarrow> pystr \<Rightarrow> msg" where
  "chat_message r c t = [lit ''role'' \<mapsto> r, lit ''content'' \<mapsto> c, lit ''time'' \<mapsto> t]"

text \<open>
  Lines 323 to 373: the chat input. \<open>prompt\<close> is what \<open>st.chat_input\<close> returned (\<open>None\<close>
  when nothing was sent), \<open>api_key\<close> what \<open>os.getenv\<close> returned, \<open>now_time\<close> and
  \<open>stamp\<close> the two formatted clock readings. The two subscripts of lines 323 and 324
  raise \<open>KeyError\<close> on a missing key.
\<close>

definition chat_input ::
  "('c, 'vs) libs \<Rightarrow> (history_store \<Rightarrow> pystr \<times> py_exception option) \<Rightarrow> pystr option
     \<Rightarrow> pystr option \<Rightarrow> pystr \<Rightarrow> pystr \<Rightarrow> ('c, 'vs) app_state
     \<Rightarrow> ('c, 'vs) app_state \<times> py_exception option" where
  "chat_input L json_dump prompt api_key now_time stamp st =
     (case active_id (history st) of
        None \<Rightarrow> (st, Some (PyExc ''KeyError'' (lit ''None'')))
      | Some a \<Rightarrow>
          (case sessions (history st) a of
             None \<Rightarrow> (st, Some (PyExc ''KeyError'' (quoted a)))
           | Some session_data \<Rightarrow>
               (case prompt of
                  None \<Rightarrow> (st, None)
                | Some p \<Rightarrow>
                    if p = [] then (st, None)
                    else if \<not> truthy api_key then (st, None)
                    else
                      (let sd1 = (if messages session_data = []
                                  then session_data\<lparr>name := session_name p\<rparr>
                                  else session_data);
                           sd2 = sd1\<lparr>messages :=
                                   messages sd1 @ [chat_message (lit ''user'') p now_time]\<rparr>;
                           answer = chat L (rag_engine st) p (butlast (messages sd2)) api_key
                                      (profile st);
                           sd3 = sd2\<lparr>messages :=
                                   messages sd2
                                   @ [chat_message (lit ''assistant'') (fst (snd answer)) now_time],
                                 time := stamp\<rparr>;
                           h = (history st)\<lparr>sessions := (sessions (history st))(a \<mapsto> sd3)\<rparr>;
                           saved = save_json json_dump (disk st) HISTORY_PATH h
                       in (st\<lparr>history := h, rag_engine := fst answer, disk := fst saved\<rparr>,
                           snd saved)))))"

section \<open>Example instances\<close>

text \<open>
  Stand-ins for the libraries, to run the program on concrete inputs: a client is its key,
  only keys starting with \<open>gsk_\<close> are accepted, the store is its chunk list and a search
  returns the first \<open>k\<close> chunks, the model answers \<open>ok\<close>, loaders read nothing.
\<close>

definition demo_libs :: "(pystr, document list) libs" where
  "demo_libs =
     \<lparr>PyPDFLoader_load = (\<lambda>p. Inl (PyExc ''PdfReadError'' (lit ''EOF marker not found''))),
      TextLoader_load = (\<lambda>p. Inr [\<lparr>page_content = lit ''notes'', metadata = [lit ''source'' \<mapsto> p]\<rparr>]),
      split_documents = (\<lambda>ds. ds),
      Chroma_open = (\<lambda>p. Inl (PyExc ''ValueError'' (lit ''no collection''))),
      Chroma_from_documents = (\<lambda>ds p. Inr ds),
      Chroma_persist = (\<lambda>db. None),
      index_size = length,
      similarity_search = (\<lambda>db q k. Inr (take k db)),
      ChatGroq = (\<lambda>k. case k of
                      None \<Rightarrow> Inl (PyExc ''GroqError'' (lit ''The api_key client option must be set''))
                    | Some key \<Rightarrow>
                        if take 4 key = lit ''gsk_'' then Inr key
                        else Inl (PyExc ''AuthenticationError'' (lit ''Invalid API Key''))),
      invoke = (\<lambda>c ms. Inr (lit ''ok''))\<rparr>"

definition demo_rag :: "(pystr, document list) rag" where
  "demo_rag = CareerChatbotRAG_init (lit ''./vector_store'') (lit ''./knowledge_base'')"

definition demo_session :: session where
  "demo_session = \<lparr>name = lit ''Career Planning'', messages = [], time = lit ''2024-01-01 10:00:00''\<rparr>"

definition demo_history :: history_store where
  "demo_history = \<lparr>sessions = [lit ''s1'' \<mapsto> demo_session], active_id = Some (lit ''s1'')\<rparr>"

definition demo_state :: "(pystr, document list) app_state" where
  "demo_state =
     \<lparr>history = demo_history,
      profile = [lit ''skills'' \<mapsto> lit ''Python'', lit ''education'' \<mapsto> lit ''Graduate'',
                 lit ''interest'' \<mapsto> lit ''Data Scientist''],
      rag_engine = demo_rag\<lparr>vector_store := Some fallback_documents\<rparr>,
      disk = demo_fs\<lparr>creatable := (\<lambda>p. True)\<rparr>\<rparr>"

definition demo_messages :: "msg list" where
  "demo_messages =
     [chat_message (lit ''user'') (lit ''hi'') (lit ''10:00''),
      chat_message (lit ''system'') (lit ''internal'') (lit ''10:00''),
      chat_message (lit ''assistant'') (lit ''hello'') (lit ''10:01''),
      [lit ''note'' \<mapsto> lit ''no role'']]"

text \<open>Stand-ins for \<open>json.dump\<close> on a profile and on the history store.\<close>

definition profile_dump :: "(pystr \<rightharpoonup> pystr) \<Rightarrow> pystr \<times> py_exception option" where
  "profile_dump p =
     (dict_get p (lit ''skills'') [] @ [10] @ dict_get p (lit ''education'') [] @ [10]
        @ dict_get p (lit ''interest'') [], None)"

definition history_dump :: "history_store \<Rightarrow> pystr \<times> py_exception option" where
  "history_dump h = (case active_id h of None \<Rightarrow> lit ''null'' | Some a \<Rightarrow> a, None)"





text \<open>The same libraries with a model call that fails.\<close>

definition offline_libs :: "(pystr, document list) libs" where
  "offline_libs =
     demo_libs\<lparr>invoke := (\<lambda>c ms. Inl (PyExc ''APIConnectionError'' (lit ''Connection error.'')))\<rparr>"

section \<open>Properties of the persistence utility\<close>

lemma open_w_nodes:
  assumes "open_w fs path = Inr fs1"
  shows "\<exists>w. nodes fs1 path = Some (File w [])"
  using assms
  by (auto simp: open_w_def split: option.splits node.splits if_splits)


lemma file_write_after_open:
  assumes "open_w fs path = Inr fs1" and "file_write fs1 path text = Inr fs2"
  shows "\<exists>w. nodes fs2 path = Some (File w text)"
proof -
  from open_w_nodes [OF assms(1)] obtain w where "nodes fs1 path = Some (File w [])" ..
  with assms(2) show ?thesis by (auto simp: file_write_def split: if_splits)
qed


lemma save_json_returns:
  assumes "snd (save_json jd fs path data) = None"
  shows "\<exists>w. nodes (fst (save_json jd fs path data)) path = Some (File w (fst (jd data)))"
proof (cases "open_w fs path")
  case (Inl e)
  with assms show ?thesis by (simp add: save_json_def)
next
  case (Inr fs1)
  note opened = this
  show ?thesis
  proof (cases "file_write fs1 path (fst (jd data))")
    case (Inl e)
    with assms opened show ?thesis by (simp add: save_json_def)
  next
    case (Inr fs2)
    from file_write_after_open [OF opened Inr] opened Inr
    show ?thesis by (simp add: save_json_def)
  qed
qed


text \<open>
  Claim C4. For every path and default, \<open>load_json\<close> gives the default when nothing is
  at the path and when the file there does not parse as JSON, and gives the parsed content
  when the file there parses. It never raises: it has a value at every input.
\<close>

theorem load_json_default_or_parsed:
  "(\<not> os_path_exists fs path \<longrightarrow> load_json jl fs path d = d)
   \<and> (\<forall>text e. open_r fs path = Inr text \<and> jl text = Inl e \<longrightarrow> load_json jl fs path d = d)
   \<and> (\<forall>text v. open_r fs path = Inr text \<and> jl text = Inr v \<longrightarrow> load_json jl fs path d = v)"
  by (auto simp: load_json_def os_path_exists_def open_r_def
      split: option.splits node.splits if_splits)

theorem load_json_witness:
  "load_json demo_load demo_fs (lit ''new.json'') (lit ''dflt'') = lit ''dflt''
   \<and> load_json demo_load demo_fs (lit ''bad.json'') (lit ''dflt'') = lit ''dflt''
   \<and> load_json demo_load demo_fs (lit ''ok.json'') (lit ''dflt'') = lit ''Student''"
  using load_json_default_or_parsed [of demo_fs "lit ''new.json''" demo_load "lit ''dflt''"]
    load_json_default_or_parsed [of demo_fs "lit ''bad.json''" demo_load "lit ''dflt''"]
    load_json_default_or_parsed [of demo_fs "lit ''ok.json''" demo_load "lit ''dflt''"]
  by (simp add: os_path_exists_def open_r_def demo_load_def demo_fs_def lit_def)

text \<open>
  Claim C5, as stated, fails: saving to a file the process may not write raises
  \<open>PermissionError\<close> out of \<open>save_json\<close>.
\<close>

theorem save_json_raises_counterexample:
  "snd (save_json demo_dump demo_fs (lit ''ro.json'') (lit ''Student''))
     = Some (PyExc ''PermissionError'' (lit ''[Errno 13] Permission denied: '' @ quoted (lit ''ro.json'')))"
  by (simp add: save_json_def open_w_def demo_fs_def lit_def)

text \<open>
  Claim C5, amended. A failure of the save is raised out of \<open>save_json\<close> into its
  caller: the exception of opening the path for writing, the exception of writing the
  text to the disk, and otherwise the exception the encoder raised on the data.
  \<open>save_json\<close> returns normally exactly when the three steps succeed, and a caller such
  as the profile reset ends with the exception \<open>save_json\<close> raised.
\<close>

theorem save_json_propagates:
  "(\<forall>e. open_w fs path = Inl e \<longrightarrow> snd (save_json jd fs path data) = Some e)
   \<and> (\<forall>fs1 e. open_w fs path = Inr fs1 \<and> file_write fs1 path (fst (jd data)) = Inl e
         \<longrightarrow> snd (save_json jd fs path data) = Some e)
   \<and> (\<forall>fs1 fs2 e. open_w fs path = Inr fs1 \<and> file_write fs1 path (fst (jd data)) = Inr fs2
         \<and> snd (jd data) = Some e
         \<longrightarrow> snd (save_json jd fs path data) = Some e)
   \<and> (snd (save_json jd fs path data) = None
        \<longleftrightarrow> (\<exists>fs1 fs2. open_w fs path = Inr fs1
               \<and> file_write fs1 path (fst (jd data)) = Inr fs2 \<and> snd (jd data) = None))
   \<and> snd (reset_profile jdp st) = snd (save_json jdp (disk st) PROFILE_PATH default_profile)"
  by (auto simp: save_json_def reset_profile_def Let_def split: sum.splits)

theorem save_json_propagates_witness:
  "snd (save_json demo_dump demo_fs (lit ''ro.json'') (lit ''Student''))
     = Some (PyExc ''PermissionError'' (lit ''[Errno 13] Permission denied: '' @ quoted (lit ''ro.json'')))
   \<and> snd (save_json demo_dump full_fs (lit ''ok.json'') (lit ''Student''))
     = Some (PyExc ''OSError'' (lit ''[Errno 28] No space left on device''))
   \<and> snd (save_json failing_dump demo_fs (lit ''ok.json'') (lit ''Student''))
     = Some (PyExc ''TypeError'' (lit ''Object of type set is not JSON serializable''))
   \<and> snd (save_json demo_dump demo_fs (lit ''ok.json'') (lit ''Student'')) = None"
  using save_json_propagates [of demo_fs "lit ''ro.json''" demo_dump "lit ''Student''" profile_dump demo_state]
    save_json_propagates [of full_fs "lit ''ok.json''" demo_dump "lit ''Student''" profile_dump demo_state]
    save_json_propagates [of demo_fs "lit ''ok.json''" failing_dump "lit ''Student''" profile_dump demo_state]
    save_json_propagates [of demo_fs "lit ''ok.json''" demo_dump "lit ''Student''" profile_dump demo_state]
  by (simp add: open_w_def file_write_def failing_dump_def demo_dump_def save_json_def
      full_fs_def demo_fs_def lit_def)




section \<open>Properties of the chat operation\<close>

lemma history_messages_spec:
  "list_all has_content hist \<Longrightarrow>
   history_messages hist acc = Inr (acc @ concat (map spec_prior_message hist))"
proof (induction hist arbitrary: acc)
  case Nil
  then show ?case by simp
next
  case (Cons m rest)
  then show ?case
    by (auto simp: has_content_def spec_prior_message_def split: if_splits)
qed

lemma join_blank_lines:
  "join [10, 10] texts
     = (case texts of [] \<Rightarrow> [] | t # ts \<Rightarrow> t @ concat (map (\<lambda>u. [10, 10] @ u) ts))"
  by (induction "[10::nat, 10]" texts rule: join.induct) simp_all

lemma chat_sends_assembled:
  assumes "get_llm L self k = Inr c" and "retrieve L self q = Inr docs"
    and "assemble p docs h q = Inr msgs"
  shows "snd (chat L self q h k p)
           = (case invoke L c msgs of Inl e \<Rightarrow> (system_error e, []) | Inr r \<Rightarrow> (r, docs))"
  using assms by (simp add: chat_def chat_try_def split: sum.splits)

lemma chat_keeps_llm: "llm self = Some c \<Longrightarrow> llm (fst (chat L self q h k p)) = Some c"
  by (simp add: chat_def chat_try_def get_llm_def split: sum.splits prod.splits)

lemma chat_calls_keep_llm: "llm self = Some c \<Longrightarrow> llm (chat_calls L self calls) = Some c"
proof (induction calls arbitrary: self)
  case Nil
  then show ?case by simp
next
  case (Cons call calls)
  obtain q h k p where call: "call = (q, h, k, p)" by (cases call) auto
  from Cons.prems have "llm (fst (chat L self q h k p)) = Some c" by (rule chat_keeps_llm)
  then have "llm (chat_calls L (fst (chat L self q h k p)) calls) = Some c" by (rule Cons.IH)
  with call show ?case by simp
qed

lemma load_engine_llm: "llm (fst (load_engine L fs self)) = llm self"
  by (simp add: load_engine_def split: sum.splits)

text \<open>
  Claim C1. \<open>chat\<close> has a value at every input, so nothing is raised past it; and when
  the \<open>try\<close> block raises \<open>e\<close> (in particular when building the client, the retrieval,
  the assembly of the messages or the model call raises \<open>e\<close>), the value is the pair of
  the error text, which is the cross mark U+274C followed by \<open> System Error: \<close> and
  \<open>str(e)\<close> and so is not empty, and the empty source list.
\<close>

theorem chat_fail_soft:
  "[10060] @ lit '' System Error: '' @ exc_str e \<noteq> []
   \<and> (snd (chat_try L self q h k p) = Inl e
        \<longrightarrow> snd (chat L self q h k p) = ([10060] @ lit '' System Error: '' @ exc_str e, []))
   \<and> (get_llm L self k = Inl e
        \<longrightarrow> snd (chat L self q h k p) = ([10060] @ lit '' System Error: '' @ exc_str e, []))
   \<and> (\<forall>c. get_llm L self k = Inr c \<and> retrieve L self q = Inl e
          \<longrightarrow> snd (chat L self q h k p) = ([10060] @ lit '' System Error: '' @ exc_str e, []))
   \<and> (\<forall>c docs. get_llm L self k = Inr c \<and> retrieve L self q = Inr docs
          \<and> assemble p docs h q = Inl e
          \<longrightarrow> snd (chat L self q h k p) = ([10060] @ lit '' System Error: '' @ exc_str e, []))
   \<and> (\<forall>c docs msgs. get_llm L self k = Inr c \<and> retrieve L self q = Inr docs
          \<and> assemble p docs h q = Inr msgs \<and> invoke L c msgs = Inl e
          \<longrightarrow> snd (chat L self q h k p) = ([10060] @ lit '' System Error: '' @ exc_str e, []))"
  by (auto simp: chat_def chat_try_def system_error_def split: sum.splits prod.splits)

theorem chat_fail_soft_witness:
  "snd (chat demo_libs (demo_rag\<lparr>vector_store := Some fallback_documents\<rparr>) (lit ''hello'') []
          (Some (lit ''wrong'')) default_profile)
     = ([10060] @ lit '' System Error: Invalid API Key'', [])
   \<and> snd (chat demo_libs demo_rag (lit ''hello'') [] (Some (lit ''gsk_1'')) default_profile)
     = ([10060] @ lit '' System Error: '' @ [39] @ lit ''NoneType'' @ [39]
          @ lit '' object has no attribute '' @ [39] @ lit ''similarity_search'' @ [39], [])
   \<and> snd (chat offline_libs (demo_rag\<lparr>vector_store := Some fallback_documents\<rparr>) (lit ''hello'') []
          (Some (lit ''gsk_1'')) default_profile)
     = ([10060] @ lit '' System Error: Connection error.'', [])"
proof -
  have a: "get_llm demo_libs (demo_rag\<lparr>vector_store := Some fallback_documents\<rparr>)
             (Some (lit ''wrong'')) = Inl (PyExc ''AuthenticationError'' (lit ''Invalid API Key''))"
    by (simp add: get_llm_def demo_libs_def demo_rag_def CareerChatbotRAG_init_def lit_def)
  have b: "get_llm demo_libs demo_rag (Some (lit ''gsk_1'')) = Inr (lit ''gsk_1'')
           \<and> retrieve demo_libs demo_rag (lit ''hello'')
               = Inl (PyExc ''AttributeError''
                   (quoted (lit ''NoneType'') @ lit '' object has no attribute ''
                      @ quoted (lit ''similarity_search'')))"
    by (simp add: get_llm_def retrieve_def demo_libs_def demo_rag_def CareerChatbotRAG_init_def
        lit_def)
  have c: "snd (chat_try offline_libs (demo_rag\<lparr>vector_store := Some fallback_documents\<rparr>)
                  (lit ''hello'') [] (Some (lit ''gsk_1'')) default_profile)
             = Inl (PyExc ''APIConnectionError'' (lit ''Connection error.''))"
    by (simp add: chat_try_def get_llm_def retrieve_def assemble_def offline_libs_def demo_libs_def
        demo_rag_def CareerChatbotRAG_init_def lit_def)
  from a chat_fail_soft [of "PyExc ''AuthenticationError'' (lit ''Invalid API Key'')" demo_libs
      "demo_rag\<lparr>vector_store := Some fallback_documents\<rparr>" "lit ''hello''" "[]"
      "Some (lit ''wrong'')" default_profile]
  have 1: "snd (chat demo_libs (demo_rag\<lparr>vector_store := Some fallback_documents\<rparr>) (lit ''hello'') []
          (Some (lit ''wrong'')) default_profile)
     = ([10060] @ lit '' System Error: Invalid API Key'', [])"
    by (simp add: lit_def)
  from b chat_fail_soft [of "PyExc ''AttributeError''
                   (quoted (lit ''NoneType'') @ lit '' object has no attribute ''
                      @ quoted (lit ''similarity_search''))" demo_libs
      demo_rag "lit ''hello''" "[]" "Some (lit ''gsk_1'')" default_profile]
  have 2: "snd (chat demo_libs demo_rag (lit ''hello'') [] (Some (lit ''gsk_1'')) default_profile)
     = ([10060] @ lit '' System Error: '' @ [39] @ lit ''NoneType'' @ [39]
          @ lit '' object has no attribute '' @ [39] @ lit ''similarity_search'' @ [39], [])"
    by (simp add: quoted_def lit_def)
  from c chat_fail_soft [of "PyExc ''APIConnectionError'' (lit ''Connection error.'')" offline_libs
      "demo_rag\<lparr>vector_store := Some fallback_documents\<rparr>" "lit ''hello''" "[]"
      "Some (lit ''gsk_1'')" default_profile]
  have 3: "snd (chat offline_libs (demo_rag\<lparr>vector_store := Some fallback_documents\<rparr>) (lit ''hello'') []
          (Some (lit ''gsk_1'')) default_profile)
     = ([10060] @ lit '' System Error: Connection error.'', [])"
    by (simp add: lit_def)
  from 1 2 3 show ?thesis by blast
qed

text \<open>
  Claim C2. For every profile, retrieved documents, stored messages (each with the
  content the loop reads) and query, the assembled list is: first the system message,
  whose text is the persona line, the profile summary (skills, education and interest,
  with \<open>Unknown\<close>, \<open>Unknown\<close> and \<open>General\<close> for a missing field), the chunk texts
  separated by blank lines, and the four rules; then the stored messages in order with
  role \<open>user\<close> as a user message, role \<open>assistant\<close> as an assistant message and every
  other role dropped; then the query as the last user message.
\<close>

theorem assemble_order:
  assumes "list_all has_content hist"
  shows "assemble user_profile docs hist user_query
           = Inr (SystemMessage
                   (lit ''You are a Technical AI Career Guidance Assistant. '' @ [10]
                    @ lit ''                '' @ lit ''User Profile: Skills(''
                    @ (case user_profile (lit ''skills'') of
                         None \<Rightarrow> lit ''Unknown'' | Some v \<Rightarrow> v)
                    @ lit ''), Education(''
                    @ (case user_profile (lit ''education'') of
                         None \<Rightarrow> lit ''Unknown'' | Some v \<Rightarrow> v)
                    @ lit ''), Interest(''
                    @ (case user_profile (lit ''interest'') of
                         None \<Rightarrow> lit ''General'' | Some v \<Rightarrow> v)
                    @ lit '').'' @ [10]
                    @ lit ''                Use the following context to provide professional, mentor-grade advice: ''
                    @ (case map page_content docs of
                         [] \<Rightarrow> []
                       | t # ts \<Rightarrow> t @ concat (map (\<lambda>u. [10, 10] @ u) ts))
                    @ [10] @ lit ''                '' @ [10]
                    @ lit ''                Rules:'' @ [10]
                    @ lit ''                1. Provide structured, clear, and encouraging guidance.'' @ [10]
                    @ lit ''                2. Use professional typography: bullet points for steps and skills.'' @ [10]
                    @ lit ''                3. Tailor recommendations specifically to the user'' @ [39]
                    @ lit ''s provided profile.'' @ [10]
                    @ lit ''                4. Maintain a calm, neutral, and helpful tone.'')
                  # concat (map spec_prior_message hist) @ [HumanMessage user_query])"
  using assms
  by (simp add: assemble_def history_messages_spec system_content_def profile_context_def
      dict_get_def persona_head_def persona_context_intro_def persona_rules_def join_blank_lines)

theorem assemble_order_witness:
  "list_all has_content demo_messages
   \<and> assemble (profile demo_state) fallback_documents demo_messages (lit ''next?'')
       = Inr [SystemMessage
                (lit ''You are a Technical AI Career Guidance Assistant. '' @ [10]
                 @ lit ''                '' @ lit ''User Profile: Skills('' @ lit ''Python''
                 @ lit ''), Education('' @ lit ''Graduate''
                 @ lit ''), Interest('' @ lit ''Data Scientist'' @ lit '').'' @ [10]
                 @ lit ''                Use the following context to provide professional, mentor-grade advice: ''
                 @ lit ''Data Science includes roles like Data Analyst, ML Engineer, and Research Scientist.''
                 @ [10, 10]
                 @ lit ''Software Engineering requires mastery of algorithms, systems design, and version control.''
                 @ [10] @ lit ''                '' @ [10]
                 @ lit ''                Rules:'' @ [10]
                 @ lit ''                1. Provide structured, clear, and encouraging guidance.'' @ [10]
                 @ lit ''                2. Use professional typography: bullet points for steps and skills.'' @ [10]
                 @ lit ''                3. Tailor recommendations specifically to the user'' @ [39]
                 @ lit ''s provided profile.'' @ [10]
                 @ lit ''                4. Maintain a calm, neutral, and helpful tone.''),
              HumanMessage (lit ''hi''), AIMessage (lit ''hello''), HumanMessage (lit ''next?'')]"
proof -
  have wf: "list_all has_content demo_messages"
    by (simp add: demo_messages_def has_content_def chat_message_def lit_def)
  have prior: "concat (map spec_prior_message demo_messages)
                 = [HumanMessage (lit ''hi''), AIMessage (lit ''hello'')]"
    by (simp add: demo_messages_def spec_prior_message_def chat_message_def lit_def)
  have skills: "profile demo_state (lit ''skills'') = Some (lit ''Python'')"
    by (simp add: demo_state_def lit_def)
  have education: "profile demo_state (lit ''education'') = Some (lit ''Graduate'')"
    by (simp add: demo_state_def lit_def)
  have interest: "profile demo_state (lit ''interest'') = Some (lit ''Data Scientist'')"
    by (simp add: demo_state_def lit_def)
  have texts: "map page_content fallback_documents
                 = [lit ''Data Science includes roles like Data Analyst, ML Engineer, and Research Scientist.'',
                    lit ''Software Engineering requires mastery of algorithms, systems design, and version control.'']"
    by (simp add: fallback_documents_def)
  from wf assemble_order [OF wf, of "profile demo_state" fallback_documents "lit ''next?''"]
  show ?thesis by (simp add: prior skills education interest texts)
qed

text \<open>
  Claim C8. The client is \<open>None\<close> after construction, \<open>load_engine\<close> leaves it as it is,
  a \<open>chat\<close> call on an object without a client stores the client the constructor
  returns, and once a client is stored, one \<open>chat\<close> call and any sequence of \<open>chat\<close>
  calls leave that same client in place.
\<close>

theorem llm_lifecycle:
  "llm (CareerChatbotRAG_init pd kb :: ('c, 'vs) rag) = None
   \<and> llm (fst (load_engine (L :: ('c, 'vs) libs) fs self)) = llm self
   \<and> (llm self = None \<and> ChatGroq L k = Inr c \<longrightarrow> llm (fst (chat L self q h k p)) = Some c)
   \<and> (llm self = Some c \<longrightarrow>
        llm (fst (chat L self q h k p)) = Some c \<and> llm (chat_calls L self calls) = Some c)"
  by (auto simp: CareerChatbotRAG_init_def load_engine_llm chat_keeps_llm chat_calls_keep_llm
      chat_def chat_try_def get_llm_def split: sum.splits)

theorem llm_lifecycle_witness:
  "llm demo_rag = None
   \<and> llm (fst (load_engine demo_libs demo_fs demo_rag)) = None
   \<and> llm (fst (chat demo_libs demo_rag (lit ''hello'') [] (Some (lit ''gsk_1'')) default_profile))
       = Some (lit ''gsk_1'')
   \<and> llm (chat_calls demo_libs
            (fst (chat demo_libs demo_rag (lit ''hello'') [] (Some (lit ''gsk_1'')) default_profile))
            [(lit ''again'', [], Some (lit ''gsk_2''), default_profile),
             (lit ''more'', [], None, default_profile)])
       = Some (lit ''gsk_1'')"
proof -
  have a: "llm demo_rag = None"
    by (simp add: demo_rag_def CareerChatbotRAG_init_def)
  have k: "ChatGroq demo_libs (Some (lit ''gsk_1'')) = Inr (lit ''gsk_1'')"
    by (simp add: demo_libs_def lit_def)
  note first = llm_lifecycle [of "lit ''./vector_store''" "lit ''./knowledge_base''" demo_libs demo_fs
      demo_rag "Some (lit ''gsk_1'')" "lit ''gsk_1''" "lit ''hello''" "[]" default_profile "[]"]
  from a first have b: "llm (fst (load_engine demo_libs demo_fs demo_rag)) = None"
    by simp
  from a k first
  have c: "llm (fst (chat demo_libs demo_rag (lit ''hello'') [] (Some (lit ''gsk_1'')) default_profile))
       = Some (lit ''gsk_1'')" by blast
  from c llm_lifecycle [of "lit ''./vector_store''" "lit ''./knowledge_base''" demo_libs demo_fs
      "fst (chat demo_libs demo_rag (lit ''hello'') [] (Some (lit ''gsk_1'')) default_profile)"
      "Some (lit ''gsk_1'')" "lit ''gsk_1''" "lit ''hello''" "[]" default_profile
      "[(lit ''again'', [], Some (lit ''gsk_2''), default_profile),
             (lit ''more'', [], None, default_profile)]"]
  have d: "llm (chat_calls demo_libs
            (fst (chat demo_libs demo_rag (lit ''hello'') [] (Some (lit ''gsk_1'')) default_profile))
            [(lit ''again'', [], Some (lit ''gsk_2''), default_profile),
             (lit ''more'', [], None, default_profile)])
       = Some (lit ''gsk_1'')" by blast
  from a b c d show ?thesis by blast
qed

section \<open>Properties of the ingestion\<close>

lemma extract_documents_skipped:
  "list_all (skipped L kb) files \<Longrightarrow> extract_documents L kb files documents = documents"
proof (induction files arbitrary: documents)
  case Nil
  then show ?case by simp
next
  case (Cons f files)
  then show ?case
    by (auto simp: skipped_def split: if_splits sum.splits)
qed

lemma collect_documents_nonempty: "collect_documents L fs kb = Inr ds \<Longrightarrow> ds \<noteq> []"
  by (auto simp: collect_documents_def fallback_documents_def split: sum.splits if_splits)

lemma fallback_has_visible_text: "list_ex has_visible_text fallback_documents"
  by (simp add: fallback_documents_def has_visible_text_def lit_def)

text \<open>
  Claim C3. When the knowledge-base directory is missing, or it is a directory (possibly
  empty) whose every entry adds no document (the loader fails or returns nothing, or the
  extension is not handled), the documents handed to the splitter are the two built-in
  fallback documents, the index \<open>_create_new_db\<close> returns is the one Chroma builds from
  their chunks, and that index is not empty: with a splitter that keeps visible text and
  a Chroma collection holding one entry for each chunk, it has at least one entry.
\<close>

theorem fallback_corpus:
  assumes "nodes fs (knowledge_base_path self) = None
           \<or> (\<exists>files. nodes fs (knowledge_base_path self) = Some (Directory files)
                 \<and> list_all (skipped L (knowledge_base_path self)) files)"
    and "splitter_keeps_text L" and "chroma_stores_chunks L"
  shows "collect_documents L fs (knowledge_base_path self)
           = Inr [\<lparr>page_content =
                     lit ''Data Science includes roles like Data Analyst, ML Engineer, and Research Scientist.'',
                   metadata = [lit ''source'' \<mapsto> lit ''Internal'']\<rparr>,
                  \<lparr>page_content =
                     lit ''Software Engineering requires mastery of algorithms, systems design, and version control.'',
                   metadata = [lit ''source'' \<mapsto> lit ''Internal'']\<rparr>]
         \<and> create_new_db L fs self
             = (case Chroma_from_documents L
                       (split_documents L
                          [\<lparr>page_content =
                              lit ''Data Science includes roles like Data Analyst, ML Engineer, and Research Scientist.'',
                            metadata = [lit ''source'' \<mapsto> lit ''Internal'']\<rparr>,
                           \<lparr>page_content =
                              lit ''Software Engineering requires mastery of algorithms, systems design, and version control.'',
                            metadata = [lit ''source'' \<mapsto> lit ''Internal'']\<rparr>])
                       (persist_directory self) of
                  Inl e \<Rightarrow> Inl e | Inr db \<Rightarrow> Inr db)
         \<and> (\<forall>db. create_new_db L fs self = Inr db \<longrightarrow> 0 < index_size L db)"
proof -
  from assms(1) have c: "collect_documents L fs (knowledge_base_path self) = Inr fallback_documents"
    by (auto simp: collect_documents_def os_path_exists_def os_listdir_def
        extract_documents_skipped)
  then have d: "create_new_db L fs self
             = (case Chroma_from_documents L (split_documents L fallback_documents)
                       (persist_directory self) of
                  Inl e \<Rightarrow> Inl e | Inr db \<Rightarrow> Inr db)"
    by (simp add: create_new_db_def split: sum.splits option.splits)
  from assms(2) fallback_has_visible_text have "split_documents L fallback_documents \<noteq> []"
    by (simp add: splitter_keeps_text_def)
  with assms(3) d have "\<forall>db. create_new_db L fs self = Inr db \<longrightarrow> 0 < index_size L db"
    by (auto simp: chroma_stores_chunks_def split: sum.splits)
  with c d show ?thesis by (simp add: fallback_documents_def)
qed

theorem fallback_corpus_witness:
  "nodes demo_fs (knowledge_base_path demo_rag) = Some (Directory [lit ''cv.pdf'', lit ''notes.md''])
   \<and> list_all (skipped demo_libs (knowledge_base_path demo_rag)) [lit ''cv.pdf'', lit ''notes.md'']
   \<and> splitter_keeps_text demo_libs \<and> chroma_stores_chunks demo_libs
   \<and> create_new_db demo_libs demo_fs demo_rag = Inr fallback_documents
   \<and> index_size demo_libs fallback_documents = 2"
proof -
  have a: "nodes demo_fs (knowledge_base_path demo_rag) = Some (Directory [lit ''cv.pdf'', lit ''notes.md''])"
    by (simp add: demo_fs_def demo_rag_def CareerChatbotRAG_init_def lit_def)
  have b: "list_all (skipped demo_libs (knowledge_base_path demo_rag)) [lit ''cv.pdf'', lit ''notes.md'']"
    by (simp add: skipped_def demo_libs_def endswith_def lit_def)
  have s: "splitter_keeps_text demo_libs"
    by (auto simp: splitter_keeps_text_def demo_libs_def)
  have k: "chroma_stores_chunks demo_libs"
    by (simp add: chroma_stores_chunks_def demo_libs_def)
  from a b have "nodes demo_fs (knowledge_base_path demo_rag) = None
           \<or> (\<exists>files. nodes demo_fs (knowledge_base_path demo_rag) = Some (Directory files)
                 \<and> list_all (skipped demo_libs (knowledge_base_path demo_rag)) files)"
    by blast
  from fallback_corpus [OF this s k]
  have c: "create_new_db demo_libs demo_fs demo_rag = Inr fallback_documents"
    by (simp add: demo_libs_def fallback_documents_def)
  have "index_size demo_libs fallback_documents = 2"
    by (simp add: demo_libs_def fallback_documents_def)
  with a b s k c show ?thesis by blast
qed

section \<open>Properties of the session and profile handlers\<close>

text \<open>
  Claim C9, as stated, fails: after the reset the education field is \<open>Student\<close>, which is
  not empty.
\<close>

theorem reset_not_empty_counterexample:
  "profile (fst (reset_profile profile_dump demo_state)) (lit ''education'') = Some (lit ''Student'')
   \<and> lit ''Student'' \<noteq> []"
  by (simp add: reset_profile_def Let_def default_profile_def lit_def)

text \<open>
  Claim C9, amended. The reset replaces the whole profile in memory by the default
  profile, whose fields are exactly skills (empty), education (\<open>Student\<close>) and
  interest (empty); and when the save returns normally the profile file holds exactly the
  encoding of that default profile.
\<close>

theorem reset_profile_defaults:
  "profile (fst (reset_profile jd st)) = default_profile
   \<and> default_profile (lit ''skills'') = Some []
   \<and> default_profile (lit ''education'') = Some (lit ''Student'')
   \<and> default_profile (lit ''interest'') = Some []
   \<and> dom default_profile = {lit ''skills'', lit ''education'', lit ''interest''}
   \<and> (snd (reset_profile jd st) = None \<longrightarrow>
        (\<exists>w. nodes (disk (fst (reset_profile jd st))) PROFILE_PATH
               = Some (File w (fst (jd default_profile)))))"
proof -
  have saved: "snd (reset_profile jd st) = None \<longrightarrow>
        (\<exists>w. nodes (disk (fst (reset_profile jd st))) PROFILE_PATH
               = Some (File w (fst (jd default_profile))))"
    using save_json_returns [of jd "disk st" PROFILE_PATH default_profile]
    by (simp add: reset_profile_def Let_def)
  have "dom default_profile = {lit ''skills'', lit ''education'', lit ''interest''}"
    by (auto simp: default_profile_def lit_def split: if_splits)
  with saved show ?thesis
    by (simp add: reset_profile_def Let_def default_profile_def lit_def)
qed

theorem reset_profile_witness:
  "snd (reset_profile profile_dump demo_state) = None
   \<and> profile (fst (reset_profile profile_dump demo_state)) = default_profile
   \<and> nodes (disk (fst (reset_profile profile_dump demo_state))) PROFILE_PATH
       = Some (File True ([10] @ lit ''Student'' @ [10]))"
proof -
  have a: "snd (reset_profile profile_dump demo_state) = None"
    by (simp add: reset_profile_def Let_def save_json_def open_w_def file_write_def
        demo_state_def demo_fs_def PROFILE_PATH_def profile_dump_def lit_def)
  have b: "fst (profile_dump default_profile) = [10] @ lit ''Student'' @ [10]"
    by (simp add: profile_dump_def default_profile_def dict_get_def lit_def)
  have c: "nodes (disk (fst (reset_profile profile_dump demo_state))) PROFILE_PATH
       = Some (File True ([10] @ lit ''Student'' @ [10]))"
    by (simp add: reset_profile_def Let_def save_json_def open_w_def demo_state_def demo_fs_def
        PROFILE_PATH_def profile_dump_def file_write_def default_profile_def dict_get_def lit_def)
  from a b c reset_profile_defaults [of profile_dump demo_state] show ?thesis by simp
qed






lemma ensure_active_session_names_session:
  "\<exists>a sd. active_id (history (ensure_active_session hex ts st)) = Some a
     \<and> sessions (history (ensure_active_session hex ts st)) a = Some sd"
  by (cases "active_id (history st)") (auto simp: ensure_active_session_def truthy_def)

lemma chat_input_session:
  assumes "active_id (history st) = Some a" and "sessions (history st) a = Some sd"
    and "p \<noteq> []" and "truthy api_key"
  shows "sessions (history (fst (chat_input L jd (Some p) api_key now_time stamp st))) a
           = Some (sd\<lparr>name := (if messages sd = [] then session_name p else name sd),
                     messages := messages sd
                       @ [chat_message (lit ''user'') p now_time,
                          chat_message (lit ''assistant'')
                            (fst (snd (chat L (rag_engine st) p (messages sd) api_key (profile st))))
                            now_time],
                     time := stamp\<rparr>)"
  using assms by (simp add: chat_input_def Let_def)




text \<open>
  Claim C7. When a prompt is sent with a key present, the name of the active session
  becomes the prompt if the session had no messages and the prompt has at most 30
  characters, the first 30 characters followed by \<open>...\<close> if it had no messages and the
  prompt is longer, and stays as it was if the session had messages; the user message and
  the reply are appended.
\<close>

theorem auto_rename:
  assumes "active_id (history st) = Some a" and "sessions (history st) a = Some sd"
    and "p \<noteq> []" and "truthy api_key"
  shows "map_option name (sessions (history (fst (chat_input L jd (Some p) api_key now_time stamp st))) a)
           = Some (if messages sd = []
                   then (if length p \<le> 30 then p else take 30 p @ lit ''...'')
                   else name sd)
         \<and> map_option messages
             (sessions (history (fst (chat_input L jd (Some p) api_key now_time stamp st))) a)
           = Some (messages sd
                   @ [chat_message (lit ''user'') p now_time,
                      chat_message (lit ''assistant'')
                        (fst (snd (chat L (rag_engine st) p (messages sd) api_key (profile st))))
                        now_time])"
  using chat_input_session [OF assms, of L jd now_time stamp]
  by (simp add: session_name_def)

theorem auto_rename_witness:
  "active_id (history demo_state) = Some (lit ''s1'')
   \<and> sessions (history demo_state) (lit ''s1'') = Some demo_session
   \<and> messages demo_session = []
   \<and> truthy (Some (lit ''gsk_1''))
   \<and> map_option name
       (sessions (history (fst (chat_input demo_libs history_dump
           (Some (lit ''Should I learn Rust or Go for backend work?'')) (Some (lit ''gsk_1''))
           (lit ''10:00'') (lit ''2024-01-01 10:00:05'') demo_state))) (lit ''s1''))
     = Some (lit ''Should I learn Rust or Go for ...'')"
proof -
  have h1: "active_id (history demo_state) = Some (lit ''s1'')"
    by (simp add: demo_state_def demo_history_def)
  have h2: "sessions (history demo_state) (lit ''s1'') = Some demo_session"
    by (simp add: demo_state_def demo_history_def)
  have h3: "lit ''Should I learn Rust or Go for backend work?'' \<noteq> []"
    by (simp add: lit_def)
  have h4: "truthy (Some (lit ''gsk_1''))" by (simp add: truthy_def lit_def)
  have h5: "messages demo_session = []" by (simp add: demo_session_def)
  from h1 h2 h4 h5
    auto_rename [OF h1 h2 h3 h4, of demo_libs history_dump "lit ''10:00''" "lit ''2024-01-01 10:00:05''"]
  show ?thesis by (simp add: lit_def)
qed


end
